theory Spec2Isabelle
  imports Complex_Main "HOL-Library.Word"
begin

section \<open>Numeric conventions\<close>

text \<open>
  The Go sources compute with \<^verbatim>\<open>float64\<close>, \<^verbatim>\<open>int64\<close> and \<^verbatim>\<open>time.Duration\<close>.
  \<^item> A \<^verbatim>\<open>float64\<close> is modelled as a real number: arithmetic is exact, and NaN and the
    infinities are not represented.
  \<^item> The two \<^verbatim>\<open>int64\<close> fields of the rate limiter are 64-bit words; subtraction wraps
    and \<open>sint\<close> reads the signed value.
  \<^item> Conversion \<^verbatim>\<open>int64(x)\<close> of a \<^verbatim>\<open>float64\<close> truncates towards zero. When the
    truncated value does not fit, Go leaves the result to the implementation; that result
    is the parameter \<open>oor\<close> of the model.
  \<^item> Instants (\<^verbatim>\<open>time.Time\<close>) and durations of the gateway are integers counting
    nanoseconds; the zero \<^verbatim>\<open>time.Time\<close> is instant 0 and clock readings are not negative.
    Weights and error counts are unbounded integers: the only constructor uses the weights
    70, 20 and 10, so that no sum of weights wraps, and an error count wraps only after
    \<open>2\<^sup>6\<^sup>3\<close> failures.
\<close>

type_synonym int64 = "64 word"

definition go_trunc :: "real \<Rightarrow> int" where
  "go_trunc x = (if 0 \<le> x then \<lfloor>x\<rfloor> else \<lceil>x\<rceil>)"

definition in_int64 :: "int \<Rightarrow> bool" where
  "in_int64 i \<longleftrightarrow> - (2 ^ 63) \<le> i \<and> i < 2 ^ 63"

definition int64_of_float :: "(real \<Rightarrow> int64) \<Rightarrow> real \<Rightarrow> int64" where
  "int64_of_float oor x =
     (if in_int64 (go_trunc x) then word_of_int (go_trunc x) else oor x)"

definition float_of_int64 :: "int64 \<Rightarrow> real" where
  "float_of_int64 w = real_of_int (sint w)"



section \<open>The rate limiter (token bucket)\<close>

record RateLimiter =
  rate :: real
  capacity :: real
  tokens :: int64
  lastUpdate :: int64

text \<open>\<^verbatim>\<open>NewRateLimiter(rps)\<close>; \<open>now\<close> is the reading of \<^verbatim>\<open>time.Now().UnixNano()\<close>.\<close>

definition NewRateLimiter :: "(real \<Rightarrow> int64) \<Rightarrow> real \<Rightarrow> int64 \<Rightarrow> RateLimiter" where
  "NewRateLimiter oor rps now =
     (let cap = max 10 (rps * 0.1)
      in \<lparr>rate = rps, capacity = cap,
          tokens = int64_of_float oor (cap * 1000000000),
          lastUpdate = now\<rparr>)"

text \<open>\<^verbatim>\<open>Allow\<close>, run without interference: the new limiter state and the answer.\<close>

definition Allow :: "(real \<Rightarrow> int64) \<Rightarrow> RateLimiter \<Rightarrow> int64 \<Rightarrow> RateLimiter \<times> bool" where
  "Allow oor rl now =
     (let last = lastUpdate rl;
          elapsed = float_of_int64 (now - last) / 1000000000;
          refill = elapsed * rate rl;
          currentTokens = float_of_int64 (tokens rl) / 1000000000;
          newTokens = min (capacity rl) (currentTokens + refill)
      in if newTokens \<ge> 1
         then (rl\<lparr>tokens := int64_of_float oor ((newTokens - 1) * 1000000000),
                   lastUpdate := now\<rparr>, True)
         else (rl\<lparr>lastUpdate := now\<rparr>, False))"




text \<open>A sequence of calls, one per clock reading, with the answers in order.\<close>

fun allow_run :: "(real \<Rightarrow> int64) \<Rightarrow> RateLimiter \<Rightarrow> int64 list \<Rightarrow> RateLimiter \<times> bool list" where
  "allow_run oor rl [] = (rl, [])"
| "allow_run oor rl (now # nows) =
     (let (rl1, ok) = Allow oor rl now;
          (rl2, oks) = allow_run oor rl1 nows
      in (rl2, ok # oks))"



section \<open>Concurrent callers of \<^verbatim>\<open>Allow\<close>\<close>

text \<open>
  \<^verbatim>\<open>Allow\<close> takes no lock: it reads the clock, loads \<^verbatim>\<open>lastUpdate\<close>, loads
  \<^verbatim>\<open>tokens\<close>, and then stores \<^verbatim>\<open>tokens\<close> and \<^verbatim>\<open>lastUpdate\<close> one after the other,
  each access a sequentially consistent atomic operation of its own. A caller is the
  position it has reached with the values it holds in local variables, and a step of a
  caller performs its next access of the shared limiter.
\<close>

datatype caller =
    Start
  | ReadClock int64
  | LoadedLast int64 int64
  | LoadedTokens int64 real
  | StoredTokens int64
  | Returned bool

definition Allow_step :: "(real \<Rightarrow> int64) \<Rightarrow> int64 \<Rightarrow> RateLimiter \<Rightarrow> caller \<Rightarrow> RateLimiter \<times> caller" where
  "Allow_step oor clock rl c =
     (case c of
        Start \<Rightarrow> (rl, ReadClock clock)
      | ReadClock now \<Rightarrow> (rl, LoadedLast now (lastUpdate rl))
      | LoadedLast now last1 \<Rightarrow>
          (let elapsed = float_of_int64 (now - last1) / 1000000000;
               refill = elapsed * rate rl;
               currentTokens = float_of_int64 (tokens rl) / 1000000000
           in (rl, LoadedTokens now (min (capacity rl) (currentTokens + refill))))
      | LoadedTokens now newTokens \<Rightarrow>
          (if newTokens \<ge> 1
           then (rl\<lparr>tokens := int64_of_float oor ((newTokens - 1) * 1000000000)\<rparr>,
                 StoredTokens now)
           else (rl\<lparr>lastUpdate := now\<rparr>, Returned False))
      | StoredTokens now \<Rightarrow> (rl\<lparr>lastUpdate := now\<rparr>, Returned True)
      | Returned b \<Rightarrow> (rl, Returned b))"

text \<open>
  A schedule names, step by step, the caller that moves and the reading the clock would
  give at that moment.
\<close>

fun run_schedule ::
  "(real \<Rightarrow> int64) \<Rightarrow> RateLimiter \<times> caller list \<Rightarrow> (nat \<times> int64) list \<Rightarrow> RateLimiter \<times> caller list" where
  "run_schedule oor (rl, cs) [] = (rl, cs)"
| "run_schedule oor (rl, cs) ((i, clock) # sched) =
     (if i < length cs
      then (let (rl1, c1) = Allow_step oor clock rl (cs ! i)
            in run_schedule oor (rl1, cs[i := c1]) sched)
      else run_schedule oor (rl, cs) sched)"

section \<open>The gateway: provider health and selection\<close>

type_synonym Time = int
type_synonym Duration = int

record Provider =
  ID :: string
  Weight :: int
  Latency :: Duration
  ErrorRate :: real

record ProviderHealth =
  ErrorCount :: int
  LastFailure :: Time
  CooldownUntil :: Time
  DisabledUntil :: Time

record Gateway =
  providers :: "Provider list"
  health :: "string \<rightharpoonup> ProviderHealth"
  limiter :: RateLimiter
  totalWeight :: int

text \<open>
  A run-time panic of the Go program: a method called through the nil pointer that a
  lookup of a missing key in \<^verbatim>\<open>g.health\<close> gives, or \<^verbatim>\<open>rand.Int63n\<close> called with an
  argument that is not positive.
\<close>

datatype panic = NilDereference | InvalidArgument

definition Minute :: Duration where
  "Minute = 60000000000"

definition Hour :: Duration where
  "Hour = 3600000000000"

text \<open>\<^verbatim>\<open>NewGateway\<close>; the zero \<^verbatim>\<open>ProviderHealth{}\<close> has count 0 and the zero instant thrice.\<close>

definition NewGateway :: "(real \<Rightarrow> int64) \<Rightarrow> int64 \<Rightarrow> Gateway" where
  "NewGateway oor now =
     (let ps = [\<lparr>ID = ''provider1'', Weight = 70, Latency = 100000000, ErrorRate = 0.05\<rparr>,
                \<lparr>ID = ''provider2'', Weight = 20, Latency = 500000000, ErrorRate = 0.10\<rparr>,
                \<lparr>ID = ''provider3'', Weight = 10, Latency = 2000000000, ErrorRate = 0.20\<rparr>];
          (h, tw) = fold (\<lambda>p (h, tw).
                       (h(ID p \<mapsto> \<lparr>ErrorCount = 0, LastFailure = 0,
                                    CooldownUntil = 0, DisabledUntil = 0\<rparr>),
                        tw + Weight p)) ps (Map.empty, 0)
      in \<lparr>providers = ps, health = h, limiter = NewRateLimiter oor 1000 now,
          totalWeight = tw\<rparr>)"








text \<open>
  \<^verbatim>\<open>calculateCooldown\<close>; \<open>u\<close> is the number \<^verbatim>\<open>rand.Float64()\<close> returns, which lies
  in \<open>[0, 1)\<close>. Both conversions to \<^verbatim>\<open>time.Duration\<close> truncate towards zero.
\<close>

definition calculateCooldown :: "int \<Rightarrow> string \<Rightarrow> real \<Rightarrow> Duration" where
  "calculateCooldown errorCount errorType u =
     (let base = 1 * Minute
      in if errorCount \<le> 0 then 0
         else
           (let exponent = min (real_of_int (errorCount - 1)) 3;
                multiplier = 5 powr exponent;
                cooldown = go_trunc (real_of_int base * multiplier);
                jitter = go_trunc (u * 0.6 - 0.3) * cooldown;
                cooldown1 = cooldown + jitter
            in if cooldown1 > 1 * Hour then 1 * Hour else cooldown1))"

text \<open>
  \<^verbatim>\<open>MarkFailure\<close>. The clock is read for \<^verbatim>\<open>LastFailure\<close> (\<open>now1\<close>) and again for the
  deadline (\<open>now2\<close>).
\<close>

definition MarkFailure :: "Gateway \<Rightarrow> string \<Rightarrow> string \<Rightarrow> Time \<Rightarrow> Time \<Rightarrow> real \<Rightarrow> panic + Gateway" where
  "MarkFailure g providerID errorType now1 now2 u =
     (case health g providerID of
        None \<Rightarrow> Inl NilDereference
      | Some h \<Rightarrow>
          (let h1 = h\<lparr>ErrorCount := ErrorCount h + 1, LastFailure := now1\<rparr>;
               cooldown = calculateCooldown (ErrorCount h1) errorType u;
               h2 = (if errorType = ''billing''
                     then h1\<lparr>DisabledUntil := now2 + cooldown\<rparr>
                     else h1\<lparr>CooldownUntil := now2 + cooldown\<rparr>)
           in Inr (g\<lparr>health := (health g)(providerID \<mapsto> h2)\<rparr>)))"

section \<open>Notions of the specification\<close>

text \<open>The cooldown the specification describes, with the jitter \<open>j\<close> it draws from \<open>[-0.3, 0.3]\<close>.\<close>

definition jittered_cooldown :: "int \<Rightarrow> real \<Rightarrow> real" where
  "jittered_cooldown errorCount j =
     min (real_of_int Minute * 5 ^ nat (min (errorCount - 1) 3) * (1 + j)) (real_of_int Hour)"

text \<open>The cooldown without jitter: one minute times a power of five, at most one hour.\<close>

definition plain_cooldown :: "int \<Rightarrow> Duration" where
  "plain_cooldown errorCount = min (Minute * 5 ^ nat (min (errorCount - 1) 3)) Hour"

text \<open>
  The expiry of a provider is the later of its two deadlines. (A provider without a health
  record, which no configured gateway has, counts as expiring at instant 0.)
\<close>

definition Expiry :: "Gateway \<Rightarrow> Provider \<Rightarrow> Time" where
  "Expiry g p =
     (case health g (ID p) of
        None \<Rightarrow> 0
      | Some h \<Rightarrow> max (CooldownUntil h) (DisabledUntil h))"




text \<open>
  A gateway as \<^verbatim>\<open>NewGateway\<close> builds one: some provider, a health record for every
  provider, positive weights, and their sum cached.
\<close>

definition configured :: "Gateway \<Rightarrow> bool" where
  "configured g \<longleftrightarrow>
     providers g \<noteq> [] \<and>
     list_all (\<lambda>p. health g (ID p) \<noteq> None \<and> 0 < Weight p) (providers g) \<and>
     totalWeight g = sum_list (map Weight (providers g))"

text \<open>No deadline of a health record lies more than \<open>d\<close> after the instant \<open>t\<close>.\<close>

definition deadlines_within :: "Gateway \<Rightarrow> Time \<Rightarrow> Duration \<Rightarrow> bool" where
  "deadlines_within g t d \<longleftrightarrow>
     list_all (\<lambda>p. case health g (ID p) of
                      None \<Rightarrow> True
                    | Some h \<Rightarrow> CooldownUntil h \<le> t + d \<and> DisabledUntil h \<le> t + d)
       (providers g)"

section \<open>Example states\<close>









section \<open>Conversions and single calls of the limiter\<close>












section \<open>The admission step\<close>




section \<open>The burst after construction\<close>








section \<open>Interleaved callers\<close>

text \<open>A caller that runs alone takes five steps and does what \<^verbatim>\<open>Allow\<close> does.\<close>

lemma caller_alone:
  "run_schedule oor (rl, [Start]) (replicate 5 (0, now))
     = (fst (Allow oor rl now), [Returned (snd (Allow oor rl now))])"
  by (simp add: numeral_eq_Suc Allow_step_def Allow_def Let_def)

text \<open>
  Claim C3 fails on \<^verbatim>\<open>Allow\<close>. The limiter holds one token. Two callers both load the
  balance before either stores it: both are admitted, where two calls one after the other
  at the same instant admit the first and deny the second.
\<close>

theorem two_callers_one_token:
  "run_schedule oor (\<lparr>rate = 1000, capacity = 100, tokens = 1000000000, lastUpdate = 0\<rparr>, [Start, Start])
      [(0, 0), (0, 0), (0, 0), (1, 0), (1, 0), (1, 0), (0, 0), (0, 0), (1, 0), (1, 0)]
     = (\<lparr>rate = 1000, capacity = 100, tokens = 0, lastUpdate = 0\<rparr>, [Returned True, Returned True])
   \<and> allow_run oor \<lparr>rate = 1000, capacity = 100, tokens = 1000000000, lastUpdate = 0\<rparr> [0, 0]
     = (\<lparr>rate = 1000, capacity = 100, tokens = 0, lastUpdate = 0\<rparr>, [True, False])"
  by (simp add: Allow_step_def Allow_def float_of_int64_def
      in_int64_def go_trunc_def int64_of_float_def Let_def)

section \<open>Cooldown durations\<close>

lemma jitter_truncates: "0 \<le> u \<Longrightarrow> u < 1 \<Longrightarrow> go_trunc (u * 0.6 - 0.3) = 0"
  unfolding go_trunc_def by (auto simp: floor_eq_iff ceiling_eq_iff)

lemma plain_cooldown_values:
  "plain_cooldown 1 = Minute" "plain_cooldown 2 = 5 * Minute" "plain_cooldown 3 = 25 * Minute"
  "4 \<le> n \<Longrightarrow> plain_cooldown n = Hour"
  by (simp_all add: plain_cooldown_def Minute_def Hour_def numeral_2_eq_2 numeral_3_eq_3)

lemma calculateCooldown_no_jitter:
  assumes "0 \<le> u" and "u < 1"
  shows "calculateCooldown n ty u =
           (if n \<le> 0 then 0
            else if go_trunc (real_of_int Minute * 5 powr min (real_of_int (n - 1)) 3) > Hour
                 then Hour
                 else go_trunc (real_of_int Minute * 5 powr min (real_of_int (n - 1)) 3))"
  unfolding calculateCooldown_def Let_def jitter_truncates [OF assms] by simp

lemma calculateCooldown_plain:
  assumes "0 \<le> u" and "u < 1"
  shows "calculateCooldown n ty u = (if n \<le> 0 then 0 else plain_cooldown n)"
proof -
  note c = calculateCooldown_no_jitter [OF assms]
  consider "n \<le> 0" | "n = 1" | "n = 2" | "n = 3" | "4 \<le> n" by linarith
  then show ?thesis
  proof cases
    case 1
    then show ?thesis by (simp add: c)
  next
    case 2
    then show ?thesis
      by (simp add: c plain_cooldown_values Minute_def Hour_def go_trunc_def)
  next
    case 3
    then show ?thesis
      by (simp add: c plain_cooldown_values Minute_def Hour_def go_trunc_def)
  next
    case 4
    then show ?thesis
      by (simp add: c plain_cooldown_values Minute_def Hour_def go_trunc_def)
  next
    case 5
    then have "min (real_of_int (n - 1)) 3 = 3" by simp
    then show ?thesis
      using 5 by (simp add: c plain_cooldown_values Minute_def Hour_def go_trunc_def)
  qed
qed

lemma plain_cooldown_le_Hour: "plain_cooldown n \<le> Hour"
  by (simp add: plain_cooldown_def)

lemma calculateCooldown_le_Hour:
  "0 \<le> u \<Longrightarrow> u < 1 \<Longrightarrow> calculateCooldown n ty u \<le> Hour"
  using plain_cooldown_le_Hour [of n] by (simp add: calculateCooldown_plain Hour_def)

text \<open>
  Claim C5: for every number \<open>u\<close> the random source can return, the cooldown after the first
  error lies between 0.7 and 1.3 minutes, and the cooldown after the fifth error lies between
  0.7 and 1.3 hours and does not exceed one hour.
\<close>

theorem calculateCooldown_ranges:
  assumes "0 \<le> u" and "u < 1"
  shows "0.7 * real_of_int Minute \<le> real_of_int (calculateCooldown 1 ty u)
         \<and> real_of_int (calculateCooldown 1 ty u) \<le> 1.3 * real_of_int Minute
         \<and> 0.7 * real_of_int Hour \<le> real_of_int (calculateCooldown 5 ty u)
         \<and> real_of_int (calculateCooldown 5 ty u) \<le> 1.3 * real_of_int Hour
         \<and> calculateCooldown 5 ty u \<le> Hour"
  by (simp add: calculateCooldown_plain [OF assms] plain_cooldown_values Minute_def Hour_def)

text \<open>With \<open>u = 1/4\<close> the two cooldowns are one minute and one hour.\<close>

theorem calculateCooldown_ranges_witness:
  "(0::real) \<le> 1/4 \<and> (1/4::real) < 1
   \<and> calculateCooldown 1 ''rate_limit'' (1/4) = Minute
   \<and> calculateCooldown 5 ''rate_limit'' (1/4) = Hour"
proof -
  have h1: "(0::real) \<le> 1/4" and h2: "(1/4::real) < 1" by simp_all
  show ?thesis
    using calculateCooldown_ranges [OF h1 h2, of "''rate_limit''"]
    by (simp add: calculateCooldown_def go_trunc_def Minute_def Hour_def)
qed

text \<open>
  Claim C10: for every number \<open>u\<close> the random source can return, the jitter factor truncates
  to zero, and the cooldown is one minute times five to the power \<open>min (errorCount - 1) 3\<close>,
  at most one hour, when \<open>errorCount \<ge> 1\<close>, and zero otherwise: it does not depend on \<open>u\<close>.
\<close>

theorem calculateCooldown_deterministic:
  assumes "0 \<le> u" and "u < 1"
  shows "go_trunc (u * 0.6 - 0.3) = 0
         \<and> calculateCooldown errorCount ty u =
             (if 1 \<le> errorCount then min (Minute * 5 ^ nat (min (errorCount - 1) 3)) Hour else 0)"
  using calculateCooldown_plain [OF assms, of errorCount ty] jitter_truncates [OF assms]
  by (simp add: plain_cooldown_def)

text \<open>With \<open>u = 99/100\<close>: 25 minutes after the third error, nothing for a count of zero.\<close>

theorem calculateCooldown_deterministic_witness:
  "(0::real) \<le> 99/100 \<and> (99/100::real) < 1
   \<and> calculateCooldown 3 ''billing'' (99/100) = 25 * Minute
   \<and> calculateCooldown 0 ''billing'' (99/100) = 0"
proof -
  have h1: "(0::real) \<le> 99/100" and h2: "(99/100::real) < 1" by simp_all
  show ?thesis
    using calculateCooldown_deterministic [OF h1 h2, of 3 "''billing''"]
      calculateCooldown_deterministic [OF h1 h2, of 0 "''billing''"]
    by (simp add: Minute_def Hour_def)
qed

text \<open>
  Claim C4 fails on \<^verbatim>\<open>calculateCooldown\<close>. After the first error, with \<open>u = 9/10\<close> the
  jitter of the specification is \<open>+24%\<close> and its cooldown 74.4 seconds, and with \<open>u = 0\<close>
  the jitter is \<open>-30%\<close> and its cooldown 42 seconds; the code returns one minute both times.
\<close>

theorem calculateCooldown_ignores_jitter:
  "calculateCooldown 1 ''rate_limit'' (9/10) = Minute
   \<and> real_of_int (calculateCooldown 1 ''rate_limit'' (9/10)) \<noteq> jittered_cooldown 1 (9/10 * 0.6 - 0.3)
   \<and> jittered_cooldown 1 (9/10 * 0.6 - 0.3) = 74400000000
   \<and> calculateCooldown 1 ''rate_limit'' 0 = Minute
   \<and> jittered_cooldown 1 (0 * 0.6 - 0.3) = 42000000000"
  by (simp add: calculateCooldown_def jittered_cooldown_def go_trunc_def Minute_def Hour_def)

section \<open>Marking a failure\<close>




section \<open>The iterations of the selection\<close>
















section \<open>Selection always returns a provider\<close>




section \<open>Selection when no provider is available\<close>




section \<open>Weighted selection\<close>




section \<open>States the gateway can reach\<close>

text \<open>
  Every cooldown is at most one hour, so that in a gateway built by \<^verbatim>\<open>NewGateway\<close> and
  changed by \<^verbatim>\<open>MarkFailure\<close> alone, with a clock that does not run backwards, no deadline
  lies more than one hour ahead, and some expiry precedes the instant 24 hours from now.
\<close>

lemma NewGateway_configured: "configured (NewGateway oor now)"
  by (simp add: NewGateway_def configured_def)

lemma NewGateway_deadlines: "0 \<le> t \<Longrightarrow> deadlines_within (NewGateway oor now) t Hour"
  by (simp add: NewGateway_def deadlines_within_def Hour_def)

lemma MarkFailure_configured:
  assumes "configured g" and "MarkFailure g providerID errorType now1 now2 u = Inr g'"
  shows "configured g'"
proof -
  from assms(2) obtain h h2 where "health g providerID = Some h"
    and g': "g' = g\<lparr>health := (health g)(providerID \<mapsto> h2)\<rparr>"
    by (auto simp: MarkFailure_def Let_def split: option.splits)
  with assms(1) show ?thesis
    by (auto simp: configured_def list_all_iff)
qed

lemma MarkFailure_deadlines:
  assumes "deadlines_within g t Hour" and "t \<le> now2" and "0 \<le> u" and "u < 1"
    and "MarkFailure g providerID errorType now1 now2 u = Inr g'"
  shows "deadlines_within g' now2 Hour"
proof -
  from assms(5) obtain h where h: "health g providerID = Some h" 
    by (auto simp: MarkFailure_def split: option.splits)
  define c where "c = calculateCooldown (ErrorCount h + 1) errorType u"
  have c: "c \<le> Hour" unfolding c_def by (rule calculateCooldown_le_Hour [OF assms(3,4)])
  define h2 where "h2 = (if errorType = ''billing''
      then h\<lparr>ErrorCount := ErrorCount h + 1, LastFailure := now1, DisabledUntil := now2 + c\<rparr>
      else h\<lparr>ErrorCount := ErrorCount h + 1, LastFailure := now1, CooldownUntil := now2 + c\<rparr>)"
  have g': "g' = g\<lparr>health := (health g)(providerID \<mapsto> h2)\<rparr>"
    using assms(5) h by (auto simp: MarkFailure_def Let_def h2_def c_def)
  show ?thesis
    unfolding deadlines_within_def list_all_iff
  proof
    fix p assume p: "p \<in> set (providers g')"
    then have pg: "p \<in> set (providers g)" by (simp add: g')
    show "case health g' (ID p) of None \<Rightarrow> True
          | Some k \<Rightarrow> CooldownUntil k \<le> now2 + Hour \<and> DisabledUntil k \<le> now2 + Hour"
    proof (cases "ID p = providerID")
      case True
      from assms(1) pg h True have "CooldownUntil h \<le> t + Hour \<and> DisabledUntil h \<le> t + Hour"
        by (auto simp: deadlines_within_def list_all_iff)
      then show ?thesis
        using True c assms(2) by (simp add: g' h2_def)
    next
      case False
      from assms(1) pg have "case health g (ID p) of None \<Rightarrow> True
          | Some k \<Rightarrow> CooldownUntil k \<le> t + Hour \<and> DisabledUntil k \<le> t + Hour"
        by (simp add: deadlines_within_def list_all_iff)
      then show ?thesis
        using False assms(2) by (auto simp: g' split: option.splits)
    qed
  qed
qed

lemma deadlines_within_Expiry:
  assumes "configured g" and "deadlines_within g t Hour" and "t \<le> now"
  shows "\<exists>p\<in>set (providers g). Expiry g p < now + 24 * Hour"
proof -
  from assms(1) obtain p where p: "p \<in> set (providers g)"
    by (cases "providers g") (auto simp: configured_def)
  with assms(1) obtain h where h: "health g (ID p) = Some h"
    by (auto simp: configured_def list_all_iff)
  from assms(2) p h have "CooldownUntil h \<le> t + Hour \<and> DisabledUntil h \<le> t + Hour"
    by (auto simp: deadlines_within_def list_all_iff)
  then have "Expiry g p < now + 24 * Hour"
    using assms(3) h by (simp add: Expiry_def Hour_def)
  with p show ?thesis by blast
qed

end
